theory Spec2Isabelle
  imports Main "HOL-Library.Word"
begin

unbundle bit_operations_syntax

section \<open>Platform types and constants\<close>

text \<open>
  \<^verbatim>\<open>SocketSupport.cpp\<close> is a C++/CLI shim over Winsock. Its own code is four static
  methods and a static constructor; everything else it touches is the platform. The C type
  \<^verbatim>\<open>int\<close> is modelled by \<^typ>\<open>int\<close>: the code only compares and passes such values, it never
  does arithmetic on them. \<^verbatim>\<open>WORD\<close>, \<^verbatim>\<open>DWORD\<close> and \<^verbatim>\<open>long\<close> are words of 16, 32 and 32 bits.
  Pointer-sized values (\<^verbatim>\<open>HANDLE\<close>, \<^verbatim>\<open>SOCKET\<close>, \<^verbatim>\<open>WSAEVENT\<close>, \<^verbatim>\<open>IntPtr\<close>) are \<open>'p word\<close>, where
  \<open>'p\<close> is the pointer width of the process (32 or 64).

  The constants below are the values of the platform headers (\<^verbatim>\<open>winsock2.h\<close>, \<^verbatim>\<open>winbase.h\<close>,
  \<^verbatim>\<open>windef.h\<close>) and of the managed enumeration \<^verbatim>\<open>SocketInformationOptions\<close>; they are not
  defined in this repository.
\<close>

type_synonym byte = "8 word"

definition SOCKET_ERROR :: int where
  "SOCKET_ERROR = - 1"

definition WSAENOTSOCK :: int where
  "WSAENOTSOCK = 10038"

definition WSASYSNOTREADY :: int where
  "WSASYSNOTREADY = 10091"

definition FD_READ :: "32 word" where
  "FD_READ = push_bit (0::nat) 1"

definition FD_WRITE :: "32 word" where
  "FD_WRITE = push_bit (1::nat) 1"

definition STD_INPUT_HANDLE :: "32 word" where
  "STD_INPUT_HANDLE = - 10"

definition WSA_INVALID_EVENT :: "'p::len word" where
  "WSA_INVALID_EVENT = 0"

definition MAKEWORD :: "byte \<Rightarrow> byte \<Rightarrow> 16 word" where
  "MAKEWORD a b = ucast a OR push_bit (8::nat) (ucast b)"

text \<open>
  \<^verbatim>\<open>sizeof(WSAPROTOCOL_INFO)\<close>. The file only compiles in a Unicode build (the buffer is passed
  as \<^verbatim>\<open>WSAPROTOCOL_INFOW*\<close> to the \<^verbatim>\<open>WSADuplicateSocket\<close> macro), where the structure is
  \<^verbatim>\<open>WSAPROTOCOL_INFOW\<close>, 628 bytes.
\<close>

definition sizeof_WSAPROTOCOL_INFO :: nat where
  "sizeof_WSAPROTOCOL_INFO = 628"

definition Listening :: "32 word" where
  "Listening = 4"

section \<open>Managed data\<close>

text \<open>
  Managed exceptions the code can raise: \<^verbatim>\<open>SocketException(int)\<close> thrown by the source itself,
  \<^verbatim>\<open>OverflowException\<close> from \<^verbatim>\<open>IntPtr::ToInt32\<close>, and \<^verbatim>\<open>IndexOutOfRangeException\<close> from the
  array access \<^verbatim>\<open>protocolInfo[0]\<close>.
\<close>

datatype exn =
    SocketException int
  | OverflowException
  | IndexOutOfRangeException

text \<open>
  \<^verbatim>\<open>SocketInformation\<close> is a managed struct of a reference to a byte array and an options
  word. Managed byte arrays live in a heap, a list of arrays addressed by their index;
  a reference is \<open>Some\<close> address, or \<open>None\<close> for \<^verbatim>\<open>nullptr\<close>.
\<close>

record SocketInformation =
  ProtocolInformation :: "nat option"
  Options :: "32 word"

record 'h SafeWaitHandle =
  handle :: 'h
  ownsHandle :: bool

section \<open>The operating system\<close>

text \<open>
  Every OS call the code makes, with its arguments and what the OS answered. The trace of a
  run is the list of its calls, oldest first. For \<^verbatim>\<open>WSADuplicateSocket\<close> the arguments are the
  socket, the process id and the address of the managed array the pinned pointer refers to;
  the answer is the return code and the bytes the OS stored through the pointer.
\<close>

datatype 'h os_call =
    Call_WSAStartup "16 word" int
  | Call_GetStdHandle "32 word" 'h
  | Call_GetCurrentProcessId "32 word"
  | Call_WSADuplicateSocket 'h "32 word" nat int "byte list"
  | Call_WSAGetLastError int
  | Call_CloseHandle 'h bool
  | Call_WSACreateEvent 'h
  | Call_WSAEventSelect 'h 'h "32 word" int

text \<open>
  The OS itself is a parameter: a state space \<open>'w\<close>, a type \<open>'h\<close> of handles (instantiated
  with \<open>'p word\<close> by the code) and one transition function per API entry, each returning its
  answer and the next OS state. \<open>os_live\<close> observes which handles
  denote a live kernel object. Nothing is assumed about these functions unless a theorem
  says so.
\<close>

record ('w, 'h) os =
  os_WSAStartup :: "16 word \<Rightarrow> 'w \<Rightarrow> int \<times> 'w"
  os_GetStdHandle :: "32 word \<Rightarrow> 'w \<Rightarrow> 'h \<times> 'w"
  os_GetCurrentProcessId :: "'w \<Rightarrow> 32 word \<times> 'w"
  os_WSADuplicateSocket :: "'h \<Rightarrow> 32 word \<Rightarrow> 'w \<Rightarrow> (int \<times> byte list) \<times> 'w"
  os_WSAGetLastError :: "'w \<Rightarrow> int \<times> 'w"
  os_CloseHandle :: "'h \<Rightarrow> 'w \<Rightarrow> bool \<times> 'w"
  os_WSACreateEvent :: "'w \<Rightarrow> 'h \<times> 'w"
  os_WSAEventSelect :: "'h \<Rightarrow> 'h \<Rightarrow> 32 word \<Rightarrow> 'w \<Rightarrow> int \<times> 'w"
  os_live :: "'w \<Rightarrow> 'h \<Rightarrow> bool"

text \<open>The state of the process: the OS, the managed heap, and the calls made so far.\<close>

record ('w, 'h) process =
  world :: 'w
  heap :: "byte list list"
  trace :: "'h os_call list"

definition new_calls :: "('w, 'p word) process \<Rightarrow> ('w, 'p word) process \<Rightarrow> 'p word os_call list" where
  "new_calls st st' = drop (length (trace st)) (trace st')"

text \<open>
  Storing \<open>d\<close> through a pointer to the start of a buffer: the bytes of \<open>d\<close> replace the
  first bytes of the buffer, whose length is fixed. (A store past the end of the buffer
  would corrupt memory; the model clips it.)
\<close>

definition poke :: "byte list \<Rightarrow> byte list \<Rightarrow> byte list" where
  "poke d buf = take (length buf) d @ drop (length d) buf"

subsection \<open>The API entries, as the process calls them\<close>

definition WSAStartup ::
  "('w, 'p word) os \<Rightarrow> 16 word \<Rightarrow> ('w, 'p word) process \<Rightarrow> int \<times> ('w, 'p word) process" where
  "WSAStartup os v st =
     (let (r, w) = os_WSAStartup os v (world st)
      in (r, st\<lparr>world := w, trace := trace st @ [Call_WSAStartup v r]\<rparr>))"

definition GetStdHandle ::
  "('w, 'p word) os \<Rightarrow> 32 word \<Rightarrow> ('w, 'p word) process \<Rightarrow> 'p word \<times> ('w, 'p word) process" where
  "GetStdHandle os n st =
     (let (h, w) = os_GetStdHandle os n (world st)
      in (h, st\<lparr>world := w, trace := trace st @ [Call_GetStdHandle n h]\<rparr>))"

definition GetCurrentProcessId ::
  "('w, 'p word) os \<Rightarrow> ('w, 'p word) process \<Rightarrow> 32 word \<times> ('w, 'p word) process" where
  "GetCurrentProcessId os st =
     (let (pid, w) = os_GetCurrentProcessId os (world st)
      in (pid, st\<lparr>world := w, trace := trace st @ [Call_GetCurrentProcessId pid]\<rparr>))"

definition WSADuplicateSocket ::
  "('w, 'p word) os \<Rightarrow> 'p word \<Rightarrow> 32 word \<Rightarrow> nat \<Rightarrow> ('w, 'p word) process \<Rightarrow> int \<times> ('w, 'p word) process" where
  "WSADuplicateSocket os s pid ptr st =
     (let ((r, d), w) = os_WSADuplicateSocket os s pid (world st)
      in (r, st\<lparr>world := w,
                heap := (heap st)[ptr := poke d (heap st ! ptr)],
                trace := trace st @ [Call_WSADuplicateSocket s pid ptr r d]\<rparr>))"

definition WSAGetLastError ::
  "('w, 'p word) os \<Rightarrow> ('w, 'p word) process \<Rightarrow> int \<times> ('w, 'p word) process" where
  "WSAGetLastError os st =
     (let (e, w) = os_WSAGetLastError os (world st)
      in (e, st\<lparr>world := w, trace := trace st @ [Call_WSAGetLastError e]\<rparr>))"

definition CloseHandle ::
  "('w, 'p word) os \<Rightarrow> 'p word \<Rightarrow> ('w, 'p word) process \<Rightarrow> bool \<times> ('w, 'p word) process" where
  "CloseHandle os h st =
     (let (ok, w) = os_CloseHandle os h (world st)
      in (ok, st\<lparr>world := w, trace := trace st @ [Call_CloseHandle h ok]\<rparr>))"

definition WSACreateEvent ::
  "('w, 'p word) os \<Rightarrow> ('w, 'p word) process \<Rightarrow> 'p word \<times> ('w, 'p word) process" where
  "WSACreateEvent os st =
     (let (ev, w) = os_WSACreateEvent os (world st)
      in (ev, st\<lparr>world := w, trace := trace st @ [Call_WSACreateEvent ev]\<rparr>))"

definition WSAEventSelect ::
  "('w, 'p word) os \<Rightarrow> 'p word \<Rightarrow> 'p word \<Rightarrow> 32 word \<Rightarrow> ('w, 'p word) process \<Rightarrow> int \<times> ('w, 'p word) process" where
  "WSAEventSelect os s ev lNetworkEvents st =
     (let (r, w) = os_WSAEventSelect os s ev lNetworkEvents (world st)
      in (r, st\<lparr>world := w, trace := trace st @ [Call_WSAEventSelect s ev lNetworkEvents r]\<rparr>))"

subsection \<open>Managed runtime primitives\<close>

text \<open>\<^verbatim>\<open>gcnew array<byte>(n)\<close>: a new zero-filled array at the next free address.\<close>

definition gcnew_array :: "nat \<Rightarrow> ('w, 'p word) process \<Rightarrow> nat \<times> ('w, 'p word) process" where
  "gcnew_array n st = (length (heap st), st\<lparr>heap := heap st @ [replicate n 0]\<rparr>)"

text \<open>
  \<^verbatim>\<open>IntPtr::ToInt32\<close>: the value as a 32-bit signed integer; where the pointer is wider than
  32 bits, a value outside the 32-bit signed range raises \<^verbatim>\<open>OverflowException\<close>.
\<close>

definition ToInt32 :: "'p::len word \<Rightarrow> exn + 32 word" where
  "ToInt32 v =
     (if - (2 ^ 31) \<le> sint v \<and> sint v < 2 ^ 31 then Inr (scast v) else Inl OverflowException)"

section \<open>SocketSupport.cpp\<close>

text \<open>
  The static constructor, lines 11 to 20. \<open>Inl\<close> is a thrown exception, \<open>Inr\<close> a normal
  return.
\<close>

definition SocketSupport_cctor ::
  "('w, 'p word) os \<Rightarrow> ('w, 'p word) process \<Rightarrow> (exn + unit) \<times> ('w, 'p word) process" where
  "SocketSupport_cctor os st =
     (let wVersionRequested = MAKEWORD 2 0;
          (err, st1) = WSAStartup os wVersionRequested st
      in if err = SOCKET_ERROR then (Inl (SocketException err), st1)
         else (Inr (), st1))"

text \<open>
  \<^verbatim>\<open>DuplicateStdinSocket\<close>, lines 23 to 46. The \<^verbatim>\<open>[Out]\<close> parameter is a tracking reference
  into the caller's struct: the model takes the struct's old value and returns its new
  value next to the outcome, also when the method throws. \<^verbatim>\<open>&protocolInfo[0]\<close> is a checked
  array access.
\<close>

definition DuplicateStdinSocket ::
  "('w, 'p word) os \<Rightarrow> SocketInformation \<Rightarrow> ('w, 'p word) process \<Rightarrow>
     (exn + bool) \<times> SocketInformation \<times> ('w, 'p word) process" where
  "DuplicateStdinSocket os result st =
     (let (protocolInfo, st1) = gcnew_array sizeof_WSAPROTOCOL_INFO st
      in if length (heap st1 ! protocolInfo) = 0 then (Inl IndexOutOfRangeException, result, st1)
         else
           let infoPtr = protocolInfo;
               result1 = result\<lparr>ProtocolInformation := Some protocolInfo\<rparr>;
               result2 = result1\<lparr>Options := Listening\<rparr>;
               (oldHandle, st2) = GetStdHandle os STD_INPUT_HANDLE st1;
               (pid, st3) = GetCurrentProcessId os st2;
               (err, st4) = WSADuplicateSocket os oldHandle pid infoPtr st3
           in if err = SOCKET_ERROR then
                (let (errCode, st5) = WSAGetLastError os st4
                 in if errCode = WSAENOTSOCK then (Inr False, result2, st5)
                    else (Inl (SocketException errCode), result2, st5))
              else
                (let (closed, st5) = CloseHandle os oldHandle st4
                 in (Inr True, result2, st5)))"

text \<open>
  \<^verbatim>\<open>EventSelect\<close>, lines 59 to 69. \<^verbatim>\<open>(SOCKET)sInt.ToInt32()\<close> converts the 32-bit signed
  integer to the pointer-sized unsigned \<^verbatim>\<open>SOCKET\<close>, which sign-extends.
\<close>

definition EventSelect ::
  "('w, 'p::len word) os \<Rightarrow> 'p word \<Rightarrow> 32 word \<Rightarrow> ('w, 'p word) process \<Rightarrow>
     (exn + 'p word SafeWaitHandle) \<times> ('w, 'p word) process" where
  "EventSelect os sInt eventMask st =
     (case ToInt32 sInt of
        Inl e \<Rightarrow> (Inl e, st)
      | Inr i \<Rightarrow>
          let s = scast i;
              (ev, st1) = WSACreateEvent os st;
              (err, st2) = WSAEventSelect os s ev eventMask st1
          in if err = SOCKET_ERROR then (Inl (SocketException err), st2)
             else (Inr \<lparr>handle = ev, ownsHandle = True\<rparr>, st2))"

definition EventSelectRead ::
  "('w, 'p::len word) os \<Rightarrow> 'p word \<Rightarrow> ('w, 'p word) process \<Rightarrow>
     (exn + 'p word SafeWaitHandle) \<times> ('w, 'p word) process" where
  "EventSelectRead os sInt st = EventSelect os sInt FD_READ st"

definition EventSelectWrite ::
  "('w, 'p::len word) os \<Rightarrow> 'p word \<Rightarrow> ('w, 'p word) process \<Rightarrow>
     (exn + 'p word SafeWaitHandle) \<times> ('w, 'p word) process" where
  "EventSelectWrite os sInt st = EventSelect os sInt FD_WRITE st"

section \<open>Failure answers\<close>

text \<open>
  The two OS calls of an event registration report failure in their answer: \<^verbatim>\<open>WSACreateEvent\<close>
  by returning \<^verbatim>\<open>WSA_INVALID_EVENT\<close>, \<^verbatim>\<open>WSAEventSelect\<close> by returning \<^verbatim>\<open>SOCKET_ERROR\<close>.
\<close>

fun os_failure :: "'p::len word os_call \<Rightarrow> bool" where
  "os_failure (Call_WSACreateEvent ev) = (ev = WSA_INVALID_EVENT)"
| "os_failure (Call_WSAEventSelect s ev lNetworkEvents r) = (r = SOCKET_ERROR)"
| "os_failure c = False"

section \<open>A small concrete OS\<close>

text \<open>
  An instance of the OS parameter on which the code can be run: its answers are fields of
  its state, \<^verbatim>\<open>CloseHandle\<close> removes a handle from the live ones, and \<^verbatim>\<open>WSACreateEvent\<close> hands
  out the first handle of its supply that is not live, or \<^verbatim>\<open>WSA_INVALID_EVENT\<close> when there
  is none.
\<close>

record 'h sim_world =
  sim_stdin :: 'h
  sim_startup :: int
  sim_duplicate :: "int \<times> byte list"
  sim_last_error :: int
  sim_select :: int
  sim_live :: "'h list"
  sim_supply :: "'h list"

definition sim_os :: "('p::len word sim_world, 'p word) os" where
  "sim_os =
     \<lparr>os_WSAStartup = (\<lambda>v w. (sim_startup w, w)),
      os_GetStdHandle = (\<lambda>n w. (sim_stdin w, w)),
      os_GetCurrentProcessId = (\<lambda>w. (4242, w)),
      os_WSADuplicateSocket = (\<lambda>s pid w. (sim_duplicate w, w)),
      os_WSAGetLastError = (\<lambda>w. (sim_last_error w, w)),
      os_CloseHandle = (\<lambda>h w. (h \<in> set (sim_live w), w\<lparr>sim_live := removeAll h (sim_live w)\<rparr>)),
      os_WSACreateEvent =
        (\<lambda>w. case filter (\<lambda>h. h \<noteq> WSA_INVALID_EVENT \<and> h \<notin> set (sim_live w)) (sim_supply w) of
                [] \<Rightarrow> (WSA_INVALID_EVENT, w)
              | h # hs \<Rightarrow> (h, w\<lparr>sim_live := h # sim_live w\<rparr>)),
      os_WSAEventSelect = (\<lambda>s ev lNetworkEvents w. (sim_select w, w)),
      os_live = (\<lambda>w h. h \<noteq> WSA_INVALID_EVENT \<and> h \<in> set (sim_live w))\<rparr>"

text \<open>
  A 64-bit process whose standard input is the socket \<open>0x1F4\<close>, on an OS where every call
  succeeds; and the variations used below.
\<close>

definition sim_good :: "64 word sim_world" where
  "sim_good =
     \<lparr>sim_stdin = 0x1F4, sim_startup = 0, sim_duplicate = (0, [2, 0, 0, 0]),
      sim_last_error = 0, sim_select = 0, sim_live = [0x1F4], sim_supply = [0x200, 0x204, 0x208]\<rparr>"

definition boot :: "'w \<Rightarrow> ('w, 'h) process" where
  "boot w = \<lparr>world = w, heap = [], trace = []\<rparr>"

definition no_info :: SocketInformation where
  "no_info = \<lparr>ProtocolInformation = None, Options = 0\<rparr>"

text \<open>The same process when standard input is not a socket (a console, a file, a pipe).\<close>

definition sim_not_socket :: "64 word sim_world" where
  "sim_not_socket = sim_good\<lparr>sim_duplicate := (SOCKET_ERROR, []), sim_last_error := WSAENOTSOCK\<rparr>"

text \<open>An OS whose startup reports \<^verbatim>\<open>WSASYSNOTREADY\<close>.\<close>

definition sim_not_ready :: "64 word sim_world" where
  "sim_not_ready = sim_good\<lparr>sim_startup := WSASYSNOTREADY\<rparr>"

text \<open>
  An OS whose startup fails with \<^verbatim>\<open>WSASYSNOTREADY\<close> and which therefore rejects every later
  socket call with \<^verbatim>\<open>WSANOTINITIALISED\<close> (10093).
\<close>

definition sim_not_started :: "64 word sim_world" where
  "sim_not_started =
     sim_good\<lparr>sim_startup := WSASYSNOTREADY, sim_select := SOCKET_ERROR, sim_last_error := 10093\<rparr>"

text \<open>
  An OS that rejects every event association, as it does for a closed or invalid socket
  handle: \<^verbatim>\<open>WSAEventSelect\<close> returns \<^verbatim>\<open>SOCKET_ERROR\<close> and the error code is \<^verbatim>\<open>WSAENOTSOCK\<close>.
\<close>

definition sim_select_fails :: "64 word sim_world" where
  "sim_select_fails = sim_good\<lparr>sim_select := SOCKET_ERROR, sim_last_error := WSAENOTSOCK\<rparr>"

section \<open>What a call to DuplicateStdinSocket does\<close>

text \<open>
  Every call makes four OS calls: it reads the standard-input handle and the process id,
  asks for the duplicate, and then either reads the error code or closes the handle. The
  buffer is array number \<open>length (heap st)\<close>, new in this call, and holds what the OS stored
  over its zeros.
\<close>

lemma DuplicateStdinSocket_run:
  assumes "DuplicateStdinSocket os result st = (out, result', st')"
  shows "\<exists>h pid r d x.
    result' = result\<lparr>ProtocolInformation := Some (length (heap st)), Options := Listening\<rparr> \<and>
    heap st' = heap st @ [poke d (replicate sizeof_WSAPROTOCOL_INFO 0)] \<and>
    new_calls st st' = [Call_GetStdHandle STD_INPUT_HANDLE h, Call_GetCurrentProcessId pid,
      Call_WSADuplicateSocket h pid (length (heap st)) r d, x] \<and>
    (if r = SOCKET_ERROR
     then \<exists>e. x = Call_WSAGetLastError e \<and>
            out = (if e = WSAENOTSOCK then Inr False else Inl (SocketException e))
     else (\<exists>ok. x = Call_CloseHandle h ok) \<and> out = Inr True)"
  using assms
  by (simp add: DuplicateStdinSocket_def gcnew_array_def GetStdHandle_def GetCurrentProcessId_def
      WSADuplicateSocket_def WSAGetLastError_def CloseHandle_def new_calls_def Let_def
      sizeof_WSAPROTOCOL_INFO_def nth_append
      split: prod.splits if_splits) fastforce+

lemma length_poke: "length (poke d buf) = length buf"
  by (simp add: poke_def)








text \<open>
  C6. Whatever the outcome of a call to \<open>DuplicateStdinSocket\<close> (true, false or an
  exception), the caller's record refers afterwards to an array that did not exist before
  the call, of exactly \<^verbatim>\<open>sizeof(WSAPROTOCOL_INFO)\<close> bytes, and its options are \<open>Listening\<close>;
  the arrays that existed before are untouched, and the buffer passed to the OS duplication
  call is this array, so it was allocated before that call. In particular the false
  outcome leaves the record in this state.
\<close>

theorem record_populated_on_every_outcome:
  assumes run: "DuplicateStdinSocket os result st = (out, result', st')"
  shows "ProtocolInformation result' = Some (length (heap st)) \<and>
         Options result' = Listening \<and>
         length (heap st') = Suc (length (heap st)) \<and>
         take (length (heap st)) (heap st') = heap st \<and>
         length (heap st' ! length (heap st)) = sizeof_WSAPROTOCOL_INFO \<and>
         (\<exists>s pid r d. Call_WSADuplicateSocket s pid (length (heap st)) r d \<in> set (new_calls st st'))"
proof -
  from DuplicateStdinSocket_run [OF run] obtain h pid r d x where
    res: "result' = result\<lparr>ProtocolInformation := Some (length (heap st)), Options := Listening\<rparr>"
    and hp: "heap st' = heap st @ [poke d (replicate sizeof_WSAPROTOCOL_INFO 0)]"
    and calls: "new_calls st st' = [Call_GetStdHandle STD_INPUT_HANDLE h, Call_GetCurrentProcessId pid,
      Call_WSADuplicateSocket h pid (length (heap st)) r d, x]"
    by blast
  have "\<exists>s pid r d. Call_WSADuplicateSocket s pid (length (heap st)) r d \<in> set (new_calls st st')"
    using calls by auto
  with res hp show ?thesis
    by (simp add: length_poke)
qed

theorem record_populated_on_every_outcome_witness:
  "fst (DuplicateStdinSocket sim_os no_info (boot sim_not_socket)) = Inr False \<and>
   ProtocolInformation (fst (snd (DuplicateStdinSocket sim_os no_info (boot sim_not_socket)))) = Some 0 \<and>
   Options (fst (snd (DuplicateStdinSocket sim_os no_info (boot sim_not_socket)))) = Listening \<and>
   length (heap (snd (snd (DuplicateStdinSocket sim_os no_info (boot sim_not_socket))))) = 1 \<and>
   length (heap (snd (snd (DuplicateStdinSocket sim_os no_info (boot sim_not_socket)))) ! 0)
     = sizeof_WSAPROTOCOL_INFO"
proof -
  let ?run = "DuplicateStdinSocket sim_os no_info (boot sim_not_socket)"
  have run: "?run = (fst ?run, fst (snd ?run), snd (snd ?run))"
    by simp
  have out: "fst ?run = Inr False"
    by code_simp
  have empty: "heap (boot sim_not_socket :: (64 word sim_world, 64 word) process) = []"
    by (simp add: boot_def)
  from record_populated_on_every_outcome [OF run] out empty show ?thesis
    by simp
qed

section \<open>What a call to EventSelect does\<close>

text \<open>
  A call first converts the handle. If that fails nothing else happens. Otherwise it makes
  exactly two OS calls, \<^verbatim>\<open>WSACreateEvent\<close> and \<^verbatim>\<open>WSAEventSelect\<close> on the converted handle, the
  new event and the given mask, and the outcome depends on the second answer alone.
\<close>

lemma EventSelect_in_range:
  fixes os :: "('w, 'p::len word) os"
  assumes run: "EventSelect os sInt m st = (out, st')"
    and conv: "ToInt32 sInt = Inr i"
  shows "\<exists>ev w1 r w2.
           os_WSACreateEvent os (world st) = (ev, w1) \<and>
           os_WSAEventSelect os (scast i) ev m w1 = (r, w2) \<and>
           world st' = w2 \<and> heap st' = heap st \<and>
           trace st' = trace st @ [Call_WSACreateEvent ev, Call_WSAEventSelect (scast i) ev m r] \<and>
           out = (if r = SOCKET_ERROR then Inl (SocketException r)
                  else Inr \<lparr>handle = ev, ownsHandle = True\<rparr>)"
proof -
  obtain ev w1 where create: "os_WSACreateEvent os (world st) = (ev, w1)"
    by (cases "os_WSACreateEvent os (world st)")
  obtain r w2 where select: "os_WSAEventSelect os (scast i) ev m w1 = (r, w2)"
    by (cases "os_WSAEventSelect os (scast i) ev m w1")
  from run conv create select
  have "out = (if r = SOCKET_ERROR then Inl (SocketException r)
               else Inr \<lparr>handle = ev, ownsHandle = True\<rparr>) \<and>
        st' = st\<lparr>world := w2,
                 trace := trace st @ [Call_WSACreateEvent ev, Call_WSAEventSelect (scast i) ev m r]\<rparr>"
    by (simp add: EventSelect_def WSACreateEvent_def WSAEventSelect_def Let_def split: if_splits)
  with create select show ?thesis by simp
qed

lemma EventSelect_overflow:
  assumes run: "EventSelect os sInt m st = (out, st')"
    and conv: "ToInt32 sInt = Inl e"
  shows "out = Inl e \<and> st' = st"
  using run conv by (simp add: EventSelect_def)

lemma scast_narrow_is_low_bits:
  assumes "32 \<le> LENGTH('p::len)"
  shows "(scast (v :: 'p word) :: 32 word) = ucast v"
proof -
  have "is_down (ucast :: 'p word \<Rightarrow> 32 word)"
    using assms by (simp add: is_down)
  then have "(ucast :: 'p word \<Rightarrow> 32 word) = scast"
    by (rule down_cast_same)
  then have "(ucast v :: 32 word) = scast v"
    by (rule fun_cong)
  then show ?thesis by (rule sym)
qed

lemma scast_round_trip:
  fixes v :: "'p::len word"
  assumes "- (2 ^ 31) \<le> sint v" "sint v < 2 ^ 31"
  shows "(scast (scast v :: 32 word) :: 'p word) = v"
proof -
  have "sint (word_of_int (sint v) :: 32 word) = signed_take_bit (LENGTH(32) - 1) (sint v)"
    by (rule sint_sbintrunc')
  also have "\<dots> = signed_take_bit 31 (sint v)"
    by simp
  also have "\<dots> = sint v"
    using assms by (rule signed_take_bit_int_eq_self)
  finally have "sint (scast v :: 32 word) = sint v"
    by (simp only: scast_eq)
  then have "(word_of_int (sint (scast v :: 32 word)) :: 'p word) = word_of_int (sint v)"
    by (rule arg_cong)
  then have "(scast (scast v :: 32 word) :: 'p word) = word_of_int (sint v)"
    by (simp only: scast_eq)
  also have "\<dots> = v"
    by simp
  finally show ?thesis .
qed

lemma EventSelect_calls:
  fixes os :: "('w, 'p::len word) os"
  assumes run: "EventSelect os sInt m st = (out, st')"
  shows "if - (2 ^ 31) \<le> sint sInt \<and> sint sInt < 2 ^ 31
         then \<exists>r. trace st' = trace st @ new_calls st st' \<and> new_calls st st' =
                [Call_WSACreateEvent (fst (os_WSACreateEvent os (world st))),
                 Call_WSAEventSelect (scast (scast sInt :: 32 word))
                   (fst (os_WSACreateEvent os (world st))) m r] \<and>
                world st' = snd (os_WSAEventSelect os (scast (scast sInt :: 32 word))
                   (fst (os_WSACreateEvent os (world st))) m (snd (os_WSACreateEvent os (world st)))) \<and>
                out = (if r = SOCKET_ERROR then Inl (SocketException r)
                       else Inr \<lparr>handle = fst (os_WSACreateEvent os (world st)), ownsHandle = True\<rparr>)
         else out = Inl OverflowException \<and> st' = st"
proof (cases "- (2 ^ 31) \<le> sint sInt \<and> sint sInt < 2 ^ 31")
  case True
  then have conv: "ToInt32 sInt = Inr (scast sInt)"
    by (simp add: ToInt32_def)
  from EventSelect_in_range [OF run conv] True show ?thesis
    by (auto simp add: new_calls_def)
next
  case False
  then have conv: "ToInt32 sInt = Inl OverflowException"
    by (simp add: ToInt32_def)
  from EventSelect_overflow [OF run conv] False show ?thesis
    by simp
qed

lemma EventSelect_mask:
  fixes os :: "('w, 'p::len word) os"
  assumes "Call_WSAEventSelect s ev m r \<in> set (new_calls st (snd (EventSelect os sInt eventMask st)))"
  shows "m = eventMask \<and> s = sInt"
proof -
  obtain out st' where run: "EventSelect os sInt eventMask st = (out, st')"
    by (cases "EventSelect os sInt eventMask st")
  have range: "- (2 ^ 31) \<le> sint sInt \<and> sint sInt < 2 ^ 31"
  proof (rule ccontr)
    assume "\<not> ?thesis"
    with EventSelect_calls [OF run] have "st' = st" by simp
    with assms run show False by (simp add: new_calls_def)
  qed
  then have same: "(scast (scast sInt :: 32 word) :: 'p word) = sInt"
    by (simp add: scast_round_trip)
  from EventSelect_calls [OF run] range obtain r' where
    "new_calls st st' =
       [Call_WSACreateEvent (fst (os_WSACreateEvent os (world st))),
        Call_WSAEventSelect (scast (scast sInt :: 32 word))
          (fst (os_WSACreateEvent os (world st))) eventMask r']"
    by auto
  with assms run same show ?thesis
    by auto
qed

lemma new_calls_trans:
  assumes "trace st1 = trace st @ xs" and "trace st2 = trace st1 @ ys"
  shows "new_calls st st2 = xs @ ys"
  using assms by (simp add: new_calls_def)

lemma masks_disjoint: "FD_READ AND FD_WRITE = 0" "FD_READ \<noteq> FD_WRITE"
  by (simp_all add: FD_READ_def FD_WRITE_def)

text \<open>
  C9. In a process whose pointers have at least 32 bits, a call to \<open>EventSelectRead\<close> or
  \<open>EventSelectWrite\<close> with a handle that is representable as a 32-bit signed integer makes
  its two OS calls, and the socket it passes to \<^verbatim>\<open>WSAEventSelect\<close> is the sign extension of
  the low 32 bits of the handle, which for such a handle is the handle itself. With any
  other handle (possible only where pointers are wider than 32 bits) the conversion throws
  \<^verbatim>\<open>OverflowException\<close> before any OS call: the state is unchanged and nothing acts on the
  caller's handle.
\<close>

theorem socket_is_narrowed_handle:
  fixes os :: "('w, 'p::len word) os"
  assumes run: "(out, st') = EventSelectRead os sInt st \<or> (out, st') = EventSelectWrite os sInt st"
    and width: "32 \<le> LENGTH('p)"
  shows "(- (2 ^ 31) \<le> sint sInt \<and> sint sInt < 2 ^ 31 \<longrightarrow>
            (\<exists>ev m r. new_calls st st' =
               [Call_WSACreateEvent ev,
                Call_WSAEventSelect (scast (ucast sInt :: 32 word)) ev m r]) \<and>
            scast (ucast sInt :: 32 word) = sInt) \<and>
         (\<not> (- (2 ^ 31) \<le> sint sInt \<and> sint sInt < 2 ^ 31) \<longrightarrow>
            out = Inl OverflowException \<and> st' = st \<and> new_calls st st' = [])"
proof -
  from run obtain m where es: "EventSelect os sInt m st = (out, st')"
    by (auto simp add: EventSelectRead_def EventSelectWrite_def)
  have low: "(scast sInt :: 32 word) = ucast sInt"
    using width by (rule scast_narrow_is_low_bits)
  show ?thesis
  proof (cases "- (2 ^ 31) \<le> sint sInt \<and> sint sInt < 2 ^ 31")
    case True
    then have "(scast (scast sInt :: 32 word) :: 'p word) = sInt"
      by (simp add: scast_round_trip)
    with EventSelect_calls [OF es] True low show ?thesis
      by auto
  next
    case False
    with EventSelect_calls [OF es] show ?thesis
      by (auto simp add: new_calls_def)
  qed
qed

theorem socket_is_narrowed_handle_witness:
  "(32::nat) \<le> LENGTH(64) \<and>
   \<not> sint (0x100000000 :: 64 word) < 2 ^ 31 \<and>
   fst (EventSelectRead sim_os 0x100000000 (boot sim_good)) = Inl OverflowException \<and>
   snd (EventSelectRead sim_os 0x100000000 (boot sim_good)) = boot sim_good"
proof -
  let ?run = "EventSelectRead sim_os (0x100000000 :: 64 word) (boot sim_good)"
  have run: "(fst ?run, snd ?run) = ?run \<or> (fst ?run, snd ?run) = EventSelectWrite sim_os 0x100000000 (boot sim_good)"
    by simp
  have width: "(32::nat) \<le> LENGTH(64)"
    by simp
  have big: "\<not> sint (0x100000000 :: 64 word) < 2 ^ 31"
    by simp
  from socket_is_narrowed_handle [OF run width] big width show ?thesis
    by blast
qed

text \<open>
  C10. When the association of a call to \<open>EventSelectRead\<close> or \<open>EventSelectWrite\<close> fails, the
  call ends with an exception, which carries no handle; the event \<open>ev\<close> of the failed
  association is the one \<^verbatim>\<open>WSACreateEvent\<close> returned earlier in this call; and the creation and
  the failed association are the only OS calls of the call, so nothing closes the event:
  the OS is left in the state in which the failed association left it.
\<close>

theorem failed_association_leaks_event:
  fixes os :: "('w, 'p::len word) os"
  assumes run: "(out, st') = EventSelectRead os sInt st \<or> (out, st') = EventSelectWrite os sInt st"
    and failed: "Call_WSAEventSelect s ev m SOCKET_ERROR \<in> set (new_calls st st')"
  shows "(\<exists>e. out = Inl e) \<and>
         ev = fst (os_WSACreateEvent os (world st)) \<and>
         new_calls st st' = [Call_WSACreateEvent ev, Call_WSAEventSelect s ev m SOCKET_ERROR] \<and>
         world st' = snd (os_WSAEventSelect os s ev m (snd (os_WSACreateEvent os (world st))))"
proof -
  from run obtain m' where es: "EventSelect os sInt m' st = (out, st')"
    by (auto simp add: EventSelectRead_def EventSelectWrite_def)
  have range: "- (2 ^ 31) \<le> sint sInt \<and> sint sInt < 2 ^ 31"
  proof (rule ccontr)
    assume "\<not> ?thesis"
    with EventSelect_calls [OF es] have "st' = st" by simp
    with failed show False by (simp add: new_calls_def)
  qed
  with EventSelect_calls [OF es] failed show ?thesis
    by auto
qed

theorem failed_association_leaks_event_witness:
  "Call_WSAEventSelect 0x1F4 0x200 FD_READ SOCKET_ERROR
     \<in> set (new_calls (boot sim_select_fails) (snd (EventSelectRead sim_os 0x1F4 (boot sim_select_fails)))) \<and>
   new_calls (boot sim_select_fails) (snd (EventSelectRead sim_os 0x1F4 (boot sim_select_fails)))
     = [Call_WSACreateEvent 0x200, Call_WSAEventSelect 0x1F4 0x200 FD_READ SOCKET_ERROR] \<and>
   os_live sim_os (world (snd (EventSelectRead sim_os 0x1F4 (boot sim_select_fails)))) (0x200 :: 64 word)"
proof -
  let ?run = "EventSelectRead sim_os (0x1F4 :: 64 word) (boot sim_select_fails)"
  have run: "(fst ?run, snd ?run) = ?run \<or> (fst ?run, snd ?run) = EventSelectWrite sim_os 0x1F4 (boot sim_select_fails)"
    by simp
  have failed: "Call_WSAEventSelect 0x1F4 0x200 FD_READ SOCKET_ERROR \<in> set (new_calls (boot sim_select_fails) (snd ?run))"
    by code_simp
  have live: "os_live sim_os (world (snd ?run)) (0x200 :: 64 word)"
    by code_simp
  from failed_association_leaks_event [OF run failed] failed live show ?thesis
    by simp
qed

text \<open>
  C2. The claim asks that a failed registration throws an exception carrying the OS error
  code of the failure. On an OS that rejects the association with error code
  \<^verbatim>\<open>WSAENOTSOCK\<close> (10038), \<open>EventSelectRead\<close> and \<open>EventSelectWrite\<close> throw
  \<^verbatim>\<open>SocketException(-1)\<close>: the exception carries the return value of \<^verbatim>\<open>WSAEventSelect\<close>, and the
  error code, still 10038 after the call, is never read (the call makes no
  \<^verbatim>\<open>WSAGetLastError\<close> call, unlike \<open>DuplicateStdinSocket\<close>).
\<close>

theorem event_select_throws_return_value:
  "fst (EventSelectRead sim_os (0x1F4 :: 64 word) (boot sim_select_fails)) = Inl (SocketException (- 1)) \<and>
   fst (EventSelectWrite sim_os (0x1F4 :: 64 word) (boot sim_select_fails)) = Inl (SocketException (- 1)) \<and>
   fst (os_WSAGetLastError sim_os
          (world (snd (EventSelectRead sim_os (0x1F4 :: 64 word) (boot sim_select_fails))))) = 10038 \<and>
   new_calls (boot sim_select_fails) (snd (EventSelectRead sim_os (0x1F4 :: 64 word) (boot sim_select_fails)))
     = [Call_WSACreateEvent 0x200, Call_WSAEventSelect 0x1F4 0x200 FD_READ (- 1)]"
  by code_simp

subsection \<open>A read registration followed by a write registration\<close>

text \<open>
  What is assumed of the OS: \<^verbatim>\<open>WSACreateEvent\<close> never returns a handle that is live, the
  event it returns is live afterwards unless it is \<^verbatim>\<open>WSA_INVALID_EVENT\<close>, and neither
  \<^verbatim>\<open>WSACreateEvent\<close> nor \<^verbatim>\<open>WSAEventSelect\<close> ends the life of a handle.
\<close>

lemma read_then_write:
  fixes os :: "('w, 'p::len word) os"
  assumes fresh: "\<forall>w. \<not> os_live os w (fst (os_WSACreateEvent os w))"
    and born: "\<forall>w. fst (os_WSACreateEvent os w) \<noteq> WSA_INVALID_EVENT \<longrightarrow>
                 os_live os (snd (os_WSACreateEvent os w)) (fst (os_WSACreateEvent os w))"
    and keep_create: "\<forall>w h. os_live os w h \<longrightarrow> os_live os (snd (os_WSACreateEvent os w)) h"
    and keep_select: "\<forall>s ev m w h. os_live os w h \<longrightarrow> os_live os (snd (os_WSAEventSelect os s ev m w)) h"
    and rd: "EventSelectRead os sInt st = (out1, st1)"
    and wr: "EventSelectWrite os sInt st1 = (out2, st2)"
    and range: "- (2 ^ 31) \<le> sint sInt \<and> sint sInt < 2 ^ 31"
    and os_ok: "\<forall>c \<in> set (new_calls st st2). \<not> os_failure c"
  shows "\<exists>ev1 ev2 r1 r2.
           out1 = Inr \<lparr>handle = ev1, ownsHandle = True\<rparr> \<and>
           out2 = Inr \<lparr>handle = ev2, ownsHandle = True\<rparr> \<and>
           ev1 \<noteq> ev2 \<and>
           os_live os (world st2) ev1 \<and> os_live os (world st2) ev2 \<and>
           new_calls st st2 =
             [Call_WSACreateEvent ev1, Call_WSAEventSelect sInt ev1 FD_READ r1,
              Call_WSACreateEvent ev2, Call_WSAEventSelect sInt ev2 FD_WRITE r2]"
proof -
  let ?s = "scast (scast sInt :: 32 word) :: 'p word"
  let ?c1 = "os_WSACreateEvent os (world st)"
  let ?c2 = "os_WSACreateEvent os (world st1)"
  from rd have es1: "EventSelect os sInt FD_READ st = (out1, st1)"
    by (simp add: EventSelectRead_def)
  from wr have es2: "EventSelect os sInt FD_WRITE st1 = (out2, st2)"
    by (simp add: EventSelectWrite_def)
  from EventSelect_calls [OF es1] range obtain r1 where
    tr1: "trace st1 = trace st @ new_calls st st1"
    and calls1: "new_calls st st1 = [Call_WSACreateEvent (fst ?c1), Call_WSAEventSelect ?s (fst ?c1) FD_READ r1]"
    and world1: "world st1 = snd (os_WSAEventSelect os ?s (fst ?c1) FD_READ (snd ?c1))"
    and out1: "out1 = (if r1 = SOCKET_ERROR then Inl (SocketException r1)
                       else Inr \<lparr>handle = fst ?c1, ownsHandle = True\<rparr>)"
    by auto
  from EventSelect_calls [OF es2] range obtain r2 where
    tr2: "trace st2 = trace st1 @ new_calls st1 st2"
    and calls2: "new_calls st1 st2 = [Call_WSACreateEvent (fst ?c2), Call_WSAEventSelect ?s (fst ?c2) FD_WRITE r2]"
    and world2: "world st2 = snd (os_WSAEventSelect os ?s (fst ?c2) FD_WRITE (snd ?c2))"
    and out2: "out2 = (if r2 = SOCKET_ERROR then Inl (SocketException r2)
                       else Inr \<lparr>handle = fst ?c2, ownsHandle = True\<rparr>)"
    by auto
  have all: "new_calls st st2 = new_calls st st1 @ new_calls st1 st2"
    using tr1 tr2 by (rule new_calls_trans)
  from os_ok all calls1 calls2
  have ok: "fst ?c1 \<noteq> WSA_INVALID_EVENT" "r1 \<noteq> SOCKET_ERROR"
           "fst ?c2 \<noteq> WSA_INVALID_EVENT" "r2 \<noteq> SOCKET_ERROR"
    by simp_all
  have live1: "os_live os (world st1) (fst ?c1)"
    using born keep_select ok(1) world1 by simp
  have "\<not> os_live os (world st1) (fst ?c2)"
    using fresh by simp
  with live1 have distinct: "fst ?c1 \<noteq> fst ?c2"
    by auto
  have live1': "os_live os (world st2) (fst ?c1)"
    using live1 keep_create keep_select world2 by simp
  have live2: "os_live os (world st2) (fst ?c2)"
    using born keep_select ok(3) world2 by simp
  have same: "?s = sInt"
    using range by (simp add: scast_round_trip)
  from out1 out2 ok distinct live1' live2 all calls1 calls2 same show ?thesis
    by simp
qed

lemma sim_fresh: "\<not> os_live sim_os w (fst (os_WSACreateEvent sim_os w))"
proof (cases "filter (\<lambda>h. h \<noteq> WSA_INVALID_EVENT \<and> h \<notin> set (sim_live w)) (sim_supply w)")
  case Nil
  then show ?thesis by (simp add: sim_os_def)
next
  case (Cons h hs)
  then have "h \<in> set (filter (\<lambda>h. h \<noteq> WSA_INVALID_EVENT \<and> h \<notin> set (sim_live w)) (sim_supply w))"
    by simp
  then have "h \<notin> set (sim_live w)" by simp
  with Cons show ?thesis by (simp add: sim_os_def)
qed

lemma sim_born:
  "fst (os_WSACreateEvent sim_os w) \<noteq> WSA_INVALID_EVENT \<longrightarrow>
     os_live sim_os (snd (os_WSACreateEvent sim_os w)) (fst (os_WSACreateEvent sim_os w))"
  by (cases "filter (\<lambda>h. h \<noteq> WSA_INVALID_EVENT \<and> h \<notin> set (sim_live w)) (sim_supply w)")
     (simp_all add: sim_os_def)

lemma sim_keep_create:
  "os_live sim_os w h \<longrightarrow> os_live sim_os (snd (os_WSACreateEvent sim_os w)) h"
  by (cases "filter (\<lambda>h. h \<noteq> WSA_INVALID_EVENT \<and> h \<notin> set (sim_live w)) (sim_supply w)")
     (simp_all add: sim_os_def)

lemma sim_keep_select:
  "os_live sim_os w h \<longrightarrow> os_live sim_os (snd (os_WSAEventSelect sim_os s ev m w)) h"
  by (simp add: sim_os_def)

text \<open>
  C7. Every \<^verbatim>\<open>WSAEventSelect\<close> call made by \<open>EventSelectRead\<close> is on the given socket \<open>sInt\<close>
  with the mask \<^verbatim>\<open>FD_READ\<close>, every one made by \<open>EventSelectWrite\<close> is on the given socket with
  the mask \<^verbatim>\<open>FD_WRITE\<close>, and the two masks share no bit.
  On an OS that hands out fresh events as described above: when a read registration is
  followed by a write registration on the same (representable) socket handle and none of
  the OS calls of the two reports failure, both calls return a wait handle and throw
  nothing, each handle is the event created by its own call and associated, in that call,
  with the given socket, the two handles are distinct, and both are live after the second
  call.
\<close>

theorem read_and_write_registration:
  fixes os :: "('w, 'p::len word) os"
  shows
    "(\<forall>s ev m r. Call_WSAEventSelect s ev m r
         \<in> set (new_calls st (snd (EventSelectRead os sInt st))) \<longrightarrow> m = FD_READ \<and> s = sInt) \<and>
     (\<forall>s ev m r. Call_WSAEventSelect s ev m r
         \<in> set (new_calls st (snd (EventSelectWrite os sInt st))) \<longrightarrow> m = FD_WRITE \<and> s = sInt) \<and>
     FD_READ AND FD_WRITE = 0 \<and>
     ((\<forall>w. \<not> os_live os w (fst (os_WSACreateEvent os w))) \<and>
      (\<forall>w. fst (os_WSACreateEvent os w) \<noteq> WSA_INVALID_EVENT \<longrightarrow>
            os_live os (snd (os_WSACreateEvent os w)) (fst (os_WSACreateEvent os w))) \<and>
      (\<forall>w h. os_live os w h \<longrightarrow> os_live os (snd (os_WSACreateEvent os w)) h) \<and>
      (\<forall>s ev m w h. os_live os w h \<longrightarrow> os_live os (snd (os_WSAEventSelect os s ev m w)) h) \<and>
      EventSelectRead os sInt st = (out1, st1) \<and>
      EventSelectWrite os sInt st1 = (out2, st2) \<and>
      - (2 ^ 31) \<le> sint sInt \<and> sint sInt < 2 ^ 31 \<and>
      (\<forall>c \<in> set (new_calls st st2). \<not> os_failure c)
      \<longrightarrow>
      (\<exists>ev1 ev2 r1 r2.
         out1 = Inr \<lparr>handle = ev1, ownsHandle = True\<rparr> \<and>
         out2 = Inr \<lparr>handle = ev2, ownsHandle = True\<rparr> \<and>
         ev1 \<noteq> ev2 \<and>
         os_live os (world st2) ev1 \<and> os_live os (world st2) ev2 \<and>
         new_calls st st2 =
           [Call_WSACreateEvent ev1, Call_WSAEventSelect sInt ev1 FD_READ r1,
            Call_WSACreateEvent ev2, Call_WSAEventSelect sInt ev2 FD_WRITE r2]))"
proof -
  have rd: "\<forall>s ev m r. Call_WSAEventSelect s ev m r
         \<in> set (new_calls st (snd (EventSelectRead os sInt st))) \<longrightarrow> m = FD_READ \<and> s = sInt"
    unfolding EventSelectRead_def by (intro allI impI) (rule EventSelect_mask)
  have wr: "\<forall>s ev m r. Call_WSAEventSelect s ev m r
         \<in> set (new_calls st (snd (EventSelectWrite os sInt st))) \<longrightarrow> m = FD_WRITE \<and> s = sInt"
    unfolding EventSelectWrite_def by (intro allI impI) (rule EventSelect_mask)
  have md: "FD_READ AND FD_WRITE = 0"
    by (rule masks_disjoint)
  have both: "(\<forall>w. \<not> os_live os w (fst (os_WSACreateEvent os w))) \<and>
      (\<forall>w. fst (os_WSACreateEvent os w) \<noteq> WSA_INVALID_EVENT \<longrightarrow>
            os_live os (snd (os_WSACreateEvent os w)) (fst (os_WSACreateEvent os w))) \<and>
      (\<forall>w h. os_live os w h \<longrightarrow> os_live os (snd (os_WSACreateEvent os w)) h) \<and>
      (\<forall>s ev m w h. os_live os w h \<longrightarrow> os_live os (snd (os_WSAEventSelect os s ev m w)) h) \<and>
      EventSelectRead os sInt st = (out1, st1) \<and>
      EventSelectWrite os sInt st1 = (out2, st2) \<and>
      - (2 ^ 31) \<le> sint sInt \<and> sint sInt < 2 ^ 31 \<and>
      (\<forall>c \<in> set (new_calls st st2). \<not> os_failure c)
      \<longrightarrow>
      (\<exists>ev1 ev2 r1 r2.
         out1 = Inr \<lparr>handle = ev1, ownsHandle = True\<rparr> \<and>
         out2 = Inr \<lparr>handle = ev2, ownsHandle = True\<rparr> \<and>
         ev1 \<noteq> ev2 \<and>
         os_live os (world st2) ev1 \<and> os_live os (world st2) ev2 \<and>
         new_calls st st2 =
           [Call_WSACreateEvent ev1, Call_WSAEventSelect sInt ev1 FD_READ r1,
            Call_WSACreateEvent ev2, Call_WSAEventSelect sInt ev2 FD_WRITE r2])"
  proof (rule impI)
    assume h: "(\<forall>w. \<not> os_live os w (fst (os_WSACreateEvent os w))) \<and>
      (\<forall>w. fst (os_WSACreateEvent os w) \<noteq> WSA_INVALID_EVENT \<longrightarrow>
            os_live os (snd (os_WSACreateEvent os w)) (fst (os_WSACreateEvent os w))) \<and>
      (\<forall>w h. os_live os w h \<longrightarrow> os_live os (snd (os_WSACreateEvent os w)) h) \<and>
      (\<forall>s ev m w h. os_live os w h \<longrightarrow> os_live os (snd (os_WSAEventSelect os s ev m w)) h) \<and>
      EventSelectRead os sInt st = (out1, st1) \<and>
      EventSelectWrite os sInt st1 = (out2, st2) \<and>
      - (2 ^ 31) \<le> sint sInt \<and> sint sInt < 2 ^ 31 \<and>
      (\<forall>c \<in> set (new_calls st st2). \<not> os_failure c)"
    show "\<exists>ev1 ev2 r1 r2.
         out1 = Inr \<lparr>handle = ev1, ownsHandle = True\<rparr> \<and>
         out2 = Inr \<lparr>handle = ev2, ownsHandle = True\<rparr> \<and>
         ev1 \<noteq> ev2 \<and>
         os_live os (world st2) ev1 \<and> os_live os (world st2) ev2 \<and>
         new_calls st st2 =
           [Call_WSACreateEvent ev1, Call_WSAEventSelect sInt ev1 FD_READ r1,
            Call_WSACreateEvent ev2, Call_WSAEventSelect sInt ev2 FD_WRITE r2]"
    proof (rule read_then_write)
      show "\<forall>w. \<not> os_live os w (fst (os_WSACreateEvent os w))"
        using h by blast
      show "\<forall>w. fst (os_WSACreateEvent os w) \<noteq> WSA_INVALID_EVENT \<longrightarrow>
              os_live os (snd (os_WSACreateEvent os w)) (fst (os_WSACreateEvent os w))"
        using h by blast
      show "\<forall>w h. os_live os w h \<longrightarrow> os_live os (snd (os_WSACreateEvent os w)) h"
        using h by blast
      show "\<forall>s ev m w h. os_live os w h \<longrightarrow> os_live os (snd (os_WSAEventSelect os s ev m w)) h"
        using h by blast
      show "EventSelectRead os sInt st = (out1, st1)"
        using h by blast
      show "EventSelectWrite os sInt st1 = (out2, st2)"
        using h by blast
      show "- (2 ^ 31) \<le> sint sInt \<and> sint sInt < 2 ^ 31"
        using h by blast
      show "\<forall>c \<in> set (new_calls st st2). \<not> os_failure c"
        using h by blast
    qed
  qed
  from rd wr md both show ?thesis
    by (intro conjI)
qed

theorem read_and_write_registration_witness:
  "- (2 ^ 31) \<le> sint (0x1F4 :: 64 word) \<and> sint (0x1F4 :: 64 word) < 2 ^ 31 \<and>
   \<not> list_ex os_failure
        (new_calls (boot sim_good)
           (snd (EventSelectWrite sim_os 0x1F4 (snd (EventSelectRead sim_os (0x1F4 :: 64 word) (boot sim_good)))))) \<and>
   fst (EventSelectRead sim_os (0x1F4 :: 64 word) (boot sim_good)) = Inr \<lparr>handle = 0x200, ownsHandle = True\<rparr> \<and>
   fst (EventSelectWrite sim_os 0x1F4 (snd (EventSelectRead sim_os (0x1F4 :: 64 word) (boot sim_good))))
     = Inr \<lparr>handle = 0x204, ownsHandle = True\<rparr> \<and>
   (\<exists>ev1 ev2 r1 r2.
      fst (EventSelectRead sim_os (0x1F4 :: 64 word) (boot sim_good)) = Inr \<lparr>handle = ev1, ownsHandle = True\<rparr> \<and>
      fst (EventSelectWrite sim_os 0x1F4 (snd (EventSelectRead sim_os (0x1F4 :: 64 word) (boot sim_good))))
        = Inr \<lparr>handle = ev2, ownsHandle = True\<rparr> \<and>
      ev1 \<noteq> ev2 \<and>
      os_live sim_os (world (snd (EventSelectWrite sim_os 0x1F4
         (snd (EventSelectRead sim_os (0x1F4 :: 64 word) (boot sim_good)))))) ev1 \<and>
      os_live sim_os (world (snd (EventSelectWrite sim_os 0x1F4
         (snd (EventSelectRead sim_os (0x1F4 :: 64 word) (boot sim_good)))))) ev2 \<and>
      new_calls (boot sim_good)
        (snd (EventSelectWrite sim_os 0x1F4 (snd (EventSelectRead sim_os (0x1F4 :: 64 word) (boot sim_good)))))
        = [Call_WSACreateEvent ev1, Call_WSAEventSelect 0x1F4 ev1 FD_READ r1,
           Call_WSACreateEvent ev2, Call_WSAEventSelect 0x1F4 ev2 FD_WRITE r2])"
proof -
  let ?rd = "EventSelectRead sim_os (0x1F4 :: 64 word) (boot sim_good)"
  let ?wr = "EventSelectWrite sim_os (0x1F4 :: 64 word) (snd ?rd)"
  have rd: "?rd = (fst ?rd, snd ?rd)" by simp
  have wr: "?wr = (fst ?wr, snd ?wr)" by simp
  have lo: "- (2 ^ 31) \<le> sint (0x1F4 :: 64 word)" by simp
  have hi: "sint (0x1F4 :: 64 word) < 2 ^ 31" by simp
  have ok: "\<not> list_ex os_failure (new_calls (boot sim_good) (snd ?wr))"
    by code_simp
  then have ok': "\<forall>c \<in> set (new_calls (boot sim_good) (snd ?wr)). \<not> os_failure c"
    by (simp add: list_ex_iff)
  have o1: "fst ?rd = Inr \<lparr>handle = 0x200, ownsHandle = True\<rparr>"
    by code_simp
  have o2: "fst ?wr = Inr \<lparr>handle = 0x204, ownsHandle = True\<rparr>"
    by code_simp
  have contract:
    "(\<forall>w :: 64 word sim_world. \<not> os_live sim_os w (fst (os_WSACreateEvent sim_os w))) \<and>
     (\<forall>w :: 64 word sim_world. fst (os_WSACreateEvent sim_os w) \<noteq> WSA_INVALID_EVENT \<longrightarrow>
        os_live sim_os (snd (os_WSACreateEvent sim_os w)) (fst (os_WSACreateEvent sim_os w))) \<and>
     (\<forall>(w :: 64 word sim_world) h. os_live sim_os w h \<longrightarrow> os_live sim_os (snd (os_WSACreateEvent sim_os w)) h) \<and>
     (\<forall>s ev m (w :: 64 word sim_world) h.
        os_live sim_os w h \<longrightarrow> os_live sim_os (snd (os_WSAEventSelect sim_os s ev m w)) h)"
    by (intro conjI allI sim_fresh sim_born sim_keep_create sim_keep_select)
  have "\<exists>ev1 ev2 r1 r2.
      fst ?rd = Inr \<lparr>handle = ev1, ownsHandle = True\<rparr> \<and>
      fst ?wr = Inr \<lparr>handle = ev2, ownsHandle = True\<rparr> \<and>
      ev1 \<noteq> ev2 \<and>
      os_live sim_os (world (snd ?wr)) ev1 \<and> os_live sim_os (world (snd ?wr)) ev2 \<and>
      new_calls (boot sim_good) (snd ?wr)
        = [Call_WSACreateEvent ev1, Call_WSAEventSelect 0x1F4 ev1 FD_READ r1,
           Call_WSACreateEvent ev2, Call_WSAEventSelect 0x1F4 ev2 FD_WRITE r2]"
  proof (rule mp)
    show "(\<forall>w :: 64 word sim_world. \<not> os_live sim_os w (fst (os_WSACreateEvent sim_os w))) \<and>
     (\<forall>w :: 64 word sim_world. fst (os_WSACreateEvent sim_os w) \<noteq> WSA_INVALID_EVENT \<longrightarrow>
        os_live sim_os (snd (os_WSACreateEvent sim_os w)) (fst (os_WSACreateEvent sim_os w))) \<and>
     (\<forall>(w :: 64 word sim_world) h. os_live sim_os w h \<longrightarrow> os_live sim_os (snd (os_WSACreateEvent sim_os w)) h) \<and>
     (\<forall>s ev m (w :: 64 word sim_world) h.
        os_live sim_os w h \<longrightarrow> os_live sim_os (snd (os_WSAEventSelect sim_os s ev m w)) h) \<and>
     ?rd = (fst ?rd, snd ?rd) \<and> ?wr = (fst ?wr, snd ?wr) \<and>
     - (2 ^ 31) \<le> sint (0x1F4 :: 64 word) \<and> sint (0x1F4 :: 64 word) < 2 ^ 31 \<and>
     (\<forall>c \<in> set (new_calls (boot sim_good) (snd ?wr)). \<not> os_failure c)"
      using contract rd wr lo hi ok' by (intro conjI) simp_all
  next
    from read_and_write_registration [where os = sim_os and st = "boot sim_good" and sInt = "0x1F4"
      and ?out1.0 = "fst ?rd" and ?st1.0 = "snd ?rd" and ?out2.0 = "fst ?wr" and ?st2.0 = "snd ?wr"]
    show "(\<forall>w :: 64 word sim_world. \<not> os_live sim_os w (fst (os_WSACreateEvent sim_os w))) \<and>
     (\<forall>w :: 64 word sim_world. fst (os_WSACreateEvent sim_os w) \<noteq> WSA_INVALID_EVENT \<longrightarrow>
        os_live sim_os (snd (os_WSACreateEvent sim_os w)) (fst (os_WSACreateEvent sim_os w))) \<and>
     (\<forall>(w :: 64 word sim_world) h. os_live sim_os w h \<longrightarrow> os_live sim_os (snd (os_WSACreateEvent sim_os w)) h) \<and>
     (\<forall>s ev m (w :: 64 word sim_world) h.
        os_live sim_os w h \<longrightarrow> os_live sim_os (snd (os_WSAEventSelect sim_os s ev m w)) h) \<and>
     ?rd = (fst ?rd, snd ?rd) \<and> ?wr = (fst ?wr, snd ?wr) \<and>
     - (2 ^ 31) \<le> sint (0x1F4 :: 64 word) \<and> sint (0x1F4 :: 64 word) < 2 ^ 31 \<and>
     (\<forall>c \<in> set (new_calls (boot sim_good) (snd ?wr)). \<not> os_failure c)
     \<longrightarrow>
     (\<exists>ev1 ev2 r1 r2.
      fst ?rd = Inr \<lparr>handle = ev1, ownsHandle = True\<rparr> \<and>
      fst ?wr = Inr \<lparr>handle = ev2, ownsHandle = True\<rparr> \<and>
      ev1 \<noteq> ev2 \<and>
      os_live sim_os (world (snd ?wr)) ev1 \<and> os_live sim_os (world (snd ?wr)) ev2 \<and>
      new_calls (boot sim_good) (snd ?wr)
        = [Call_WSACreateEvent ev1, Call_WSAEventSelect 0x1F4 ev1 FD_READ r1,
           Call_WSACreateEvent ev2, Call_WSAEventSelect 0x1F4 ev2 FD_WRITE r2])"
      by (elim conjE)
  qed
  with lo hi ok o1 o2 show ?thesis by blast
qed

section \<open>The static constructor\<close>

lemma SocketSupport_cctor_run:
  assumes run: "SocketSupport_cctor os st = (out, st')"
  shows "\<exists>r. os_WSAStartup os (MAKEWORD 2 0) (world st) = (r, world st') \<and>
             heap st' = heap st \<and>
             trace st' = trace st @ [Call_WSAStartup (MAKEWORD 2 0) r] \<and>
             out = (if r = SOCKET_ERROR then Inl (SocketException r) else Inr ())"
proof -
  obtain r w where start: "os_WSAStartup os (MAKEWORD 2 0) (world st) = (r, w)"
    by (cases "os_WSAStartup os (MAKEWORD 2 0) (world st)")
  from run start
  have "out = (if r = SOCKET_ERROR then Inl (SocketException r) else Inr ()) \<and>
        st' = st\<lparr>world := w, trace := trace st @ [Call_WSAStartup (MAKEWORD 2 0) r]\<rparr>"
    by (simp add: SocketSupport_cctor_def WSAStartup_def Let_def split: if_splits)
  with start show ?thesis by simp
qed

text \<open>
  C3. The claim asks that initialisation throws exactly when the OS startup call fails.
  \<^verbatim>\<open>WSAStartup\<close> reports failure by returning the error code itself; the constructor
  compares the answer with \<^verbatim>\<open>SOCKET_ERROR\<close>. On an OS whose startup fails with
  \<^verbatim>\<open>WSASYSNOTREADY\<close> (10091) the constructor, having asked for version \<^verbatim>\<open>MAKEWORD(2, 0)\<close>,
  returns normally.
\<close>

theorem startup_failure_goes_unnoticed:
  "SocketSupport_cctor sim_os (boot sim_not_ready)
     = (Inr (), \<lparr>world = sim_not_ready, heap = [],
                 trace = [Call_WSAStartup 2 10091 :: 64 word os_call]\<rparr>)"
  by code_simp

text \<open>
  C8. The claim asks that initialisation has completed before any other operation runs.
  The constructor is all the initialisation there is, and the methods rely on it alone:
  none of them checks that the subsystem started. On an OS whose startup fails with
  \<^verbatim>\<open>WSASYSNOTREADY\<close> the constructor returns normally, so the class counts as initialised, and
  a call to \<open>EventSelectRead\<close> that follows runs its body: it creates an event and asks for
  the association on a subsystem that never started.
\<close>

theorem method_runs_after_failed_startup:
  "fst (SocketSupport_cctor sim_os (boot sim_not_started)) = Inr () \<and>
   trace (snd (EventSelectRead sim_os (0x1F4 :: 64 word)
                 (snd (SocketSupport_cctor sim_os (boot sim_not_started)))))
     = [Call_WSAStartup 2 10091,
        Call_WSACreateEvent 0x200,
        Call_WSAEventSelect 0x1F4 0x200 FD_READ (- 1)]"
  by code_simp

end
